theory Spec2Isabelle
  imports Main "HOL-Library.Sublist" "HOL-Library.Char_ord" "HOL-Library.Multiset"
begin

section \<open>Strings and formatting\<close>

text \<open>
  A Go string is a sequence of bytes, and so is a HOL \<open>string\<close> (a list of 8-bit
  characters). The helpers below are the parts of the Go standard library that
  \<^verbatim>\<open>pkg/orm/orm.go\<close> calls: \<^verbatim>\<open>strings.Join\<close>, the verb \<^verbatim>\<open>%d\<close> of
  \<^verbatim>\<open>fmt.Sprintf\<close>, \<^verbatim>\<open>strings.Map\<close> and \<^verbatim>\<open>strings.ToUpper\<close>.
\<close>

text \<open>
  \<^verbatim>\<open>strings.Join(elems, sep)\<close>: the first element, then every further element
  preceded by the separator.
\<close>

fun Join :: "string list \<Rightarrow> string \<Rightarrow> string" where
  "Join [] sep = []"
| "Join (e # es) sep = e @ concat (map (\<lambda>s. sep @ s) es)"

definition digit_char :: "nat \<Rightarrow> char" where
  "digit_char d = ''0123456789'' ! d"

fun fmt_nat :: "nat \<Rightarrow> string" where
  "fmt_nat n = (if n < 10 then [digit_char n] else fmt_nat (n div 10) @ [digit_char (n mod 10)])"

declare fmt_nat.simps [simp del]

text \<open>
  \<^verbatim>\<open>fmt.Sprintf("%d", i)\<close>. Go's \<^verbatim>\<open>int\<close> is a 64-bit machine integer; every
  \<^verbatim>\<open>int\<close> the query builder formats is a slice length plus one or a counter
  that is incremented once per element of a slice or map, so it never reaches the
  wrap-around and is modelled by an unbounded \<open>int\<close>.
\<close>

definition fmt_d :: "int \<Rightarrow> string" where
  "fmt_d i = (if i < 0 then CHR ''-'' # fmt_nat (nat (- i)) else fmt_nat (nat i))"

text \<open>
  \<^verbatim>\<open>strings.Map(mapping, s)\<close>: the mapping is applied to every character and a
  negative result (here \<open>None\<close>) drops the character. Go decodes \<^verbatim>\<open>s\<close> as UTF-8
  and maps code points; every byte of a multi-byte encoding, and every invalid
  byte, is at least \<^verbatim>\<open>0x80\<close>, and the only mapping the ORM uses drops every code
  point outside ASCII, so mapping byte by byte gives the same string.
\<close>

definition Map_str :: "(char \<Rightarrow> char option) \<Rightarrow> string \<Rightarrow> string" where
  "Map_str mapping s = List.map_filter mapping s"

definition isASCII :: "string \<Rightarrow> bool" where
  "isASCII s = list_all (\<lambda>c. c < CHR 0x80) s"

definition upper_byte :: "char \<Rightarrow> char" where
  "upper_byte c =
     (if CHR ''a'' \<le> c \<and> c \<le> CHR ''z'' then char_of (of_char c - (32::nat)) else c)"

text \<open>
  \<^verbatim>\<open>strings.ToUpper(s)\<close>: on a string of ASCII bytes the letters \<^verbatim>\<open>a..z\<close> are
  moved to \<^verbatim>\<open>A..Z\<close> byte by byte; on any other string Go applies
  \<^verbatim>\<open>unicode.ToUpper\<close> to every code point. The Unicode case tables belong to the
  Go runtime, not to this repository: they are the parameter \<open>unicodeUpper\<close>.
\<close>

definition ToUpper :: "(string \<Rightarrow> string) \<Rightarrow> string \<Rightarrow> string" where
  "ToUpper unicodeUpper s = (if isASCII s then map upper_byte s else unicodeUpper s)"


section \<open>Sanitizer\<close>

text \<open>
  The test of the anonymous function inside \<^verbatim>\<open>sanitizeColumn\<close>:
  \<^verbatim>\<open>(r >= 'a' && r <= 'z') || (r >= 'A' && r <= 'Z') || (r >= '0' && r <= '9') || r == '_'\<close>.
\<close>

definition keep_rune :: "char \<Rightarrow> bool" where
  "keep_rune r =
     ((CHR ''a'' \<le> r \<and> r \<le> CHR ''z'') \<or> (CHR ''A'' \<le> r \<and> r \<le> CHR ''Z'')
      \<or> (CHR ''0'' \<le> r \<and> r \<le> CHR ''9'') \<or> r = CHR ''_'')"

definition sanitizeColumn :: "string \<Rightarrow> string" where
  "sanitizeColumn column = Map_str (\<lambda>r. if keep_rune r then Some r else None) column"

definition sanitizeTableName :: "string \<Rightarrow> string" where
  "sanitizeTableName tbl = sanitizeColumn tbl"

definition sanitizeColumns :: "string list \<Rightarrow> string list" where
  "sanitizeColumns columns = map sanitizeColumn columns"

text \<open>The character class \<^verbatim>\<open>[A-Za-z0-9_]\<close> of the specification, written out.\<close>

definition ident_chars :: "char set" where
  "ident_chars = set ''abcdefghijklmnopqrstuvwxyzABCDEFGHIJKLMNOPQRSTUVWXYZ0123456789_''"


section \<open>Data model\<close>

text \<open>
  The sentinel errors of the package, and the two ways the package builds further
  errors: \<^verbatim>\<open>fmt.Errorf\<close> with a fixed message, and \<^verbatim>\<open>fmt.Errorf("...: %w", err)\<close>
  wrapping a cause. \<open>DriverError\<close> is an error that \<^verbatim>\<open>database/sql\<close> returned. A
  \<^verbatim>\<open>panic(ErrInvalidOperator)\<close> is the result \<open>Inl ErrInvalidOperator\<close>.
\<close>

datatype error =
    ErrNoRows
  | ErrInvalidOperator
  | ErrInvalidValue
  | Errorf string
  | Wrap string error
  | DriverError string

text \<open>
  A value of type \<^verbatim>\<open>interface{}\<close>. The ORM never inspects such a value: it stores
  it, and hands it to the database as a positional argument.
\<close>

datatype ival = VNil | VInt int | VString string | VBool bool | VTime int

text \<open>
  The clause structs. The field \<^verbatim>\<open>value\<close> of \<^verbatim>\<open>whereClause\<close> is \<open>wvalue\<close> here;
  the fields of \<^verbatim>\<open>joinClause\<close> and \<^verbatim>\<open>havingClause\<close> whose names repeat a name of
  another struct carry the prefix \<open>j\<close> or \<open>h\<close>.
\<close>

record whereClause =
  column :: string
  operator :: string
  wvalue :: ival

record joinClause =
  jtable :: string
  joinType :: string
  condition :: string
  args :: "ival list"

record havingClause =
  hcondition :: string
  hargs :: "ival list"

record Query =
  table :: string
  selections :: "string list"
  wheres :: "whereClause list"
  orWheres :: "whereClause list"
  joins :: "joinClause list"
  limit :: int
  offset :: int
  orderBy :: string
  orderDir :: string
  groupBy :: "string list"
  having :: "havingClause list"

text \<open>
  The builder \<^verbatim>\<open>Model\<close>. Its field \<^verbatim>\<open>db\<close> points to the \<^verbatim>\<open>Orm\<close> shared by all
  builders: the model passes that state to every terminal operation and gets it
  back. The cancellation context \<^verbatim>\<open>ctx\<close> is only handed on to \<^verbatim>\<open>database/sql\<close>
  and is left out.
\<close>

record Model =
  query :: Query

text \<open>
  \<^verbatim>\<open>var validOperators = map[string]bool{...}\<close>; reading a key that is absent from
  a Go map of booleans gives \<^verbatim>\<open>false\<close>.
\<close>

definition validOperators :: "string \<rightharpoonup> bool" where
  "validOperators = map_of
     [(''='', True), (''<>'', True), (''>'', True), (''<'', True), (''>='', True),
      (''<='', True), (''LIKE'', True), (''NOT LIKE'', True), (''IN'', True),
      (''NOT IN'', True), (''IS NULL'', True), (''IS NOT NULL'', True)]"

definition index_bool :: "(string \<rightharpoonup> bool) \<Rightarrow> string \<Rightarrow> bool" where
  "index_bool m k = (case m k of None \<Rightarrow> False | Some b \<Rightarrow> b)"


section \<open>Builder methods\<close>

definition Table :: "string \<Rightarrow> Model" where
  "Table tableName =
     \<lparr>query = \<lparr>table = tableName, selections = [tableName @ ''.*''], wheres = [],
        orWheres = [], joins = [], limit = 0, offset = 0, orderBy = [], orderDir = [],
        groupBy = [], having = []\<rparr>\<rparr>"

definition Select :: "string list \<Rightarrow> Model \<Rightarrow> Model" where
  "Select columns m = m\<lparr>query := (query m)\<lparr>selections := sanitizeColumns columns\<rparr>\<rparr>"

definition addJoin :: "string \<Rightarrow> string \<Rightarrow> string \<Rightarrow> ival list \<Rightarrow> Model \<Rightarrow> Model" where
  "addJoin jt tbl cond as m =
     m\<lparr>query := (query m)\<lparr>joins := joins (query m) @
        [\<lparr>jtable = tbl, joinType = jt, condition = cond, args = as\<rparr>]\<rparr>\<rparr>"

text \<open>
  The method \<^verbatim>\<open>Join\<close> of the builder is \<open>Join_inner\<close> here, since \<open>Join\<close> is
  \<^verbatim>\<open>strings.Join\<close>.
\<close>

definition Join_inner :: "string \<Rightarrow> string \<Rightarrow> ival list \<Rightarrow> Model \<Rightarrow> Model" where
  "Join_inner tbl cond as m = addJoin ''INNER JOIN'' (sanitizeTableName tbl) cond as m"

definition LeftJoin :: "string \<Rightarrow> string \<Rightarrow> ival list \<Rightarrow> Model \<Rightarrow> Model" where
  "LeftJoin tbl cond as m = addJoin ''LEFT JOIN'' (sanitizeTableName tbl) cond as m"

definition RightJoin :: "string \<Rightarrow> string \<Rightarrow> ival list \<Rightarrow> Model \<Rightarrow> Model" where
  "RightJoin tbl cond as m = addJoin ''RIGHT JOIN'' (sanitizeTableName tbl) cond as m"

text \<open>
  \<^verbatim>\<open>CrossJoin\<close> passes the single variadic argument \<^verbatim>\<open>nil\<close>, so the clause holds
  the one-element argument list \<^verbatim>\<open>[nil]\<close>; the empty condition keeps it out of
  every rendering.
\<close>

definition CrossJoin :: "string \<Rightarrow> Model \<Rightarrow> Model" where
  "CrossJoin tbl m = addJoin ''CROSS JOIN'' (sanitizeTableName tbl) [] [VNil] m"

text \<open>
  \<^verbatim>\<open>Where\<close> and \<^verbatim>\<open>OrWhere\<close>. The panic on an operator outside
  \<^verbatim>\<open>validOperators\<close> leaves the method before the append: the result is the error
  and no builder is returned.
\<close>

definition Where ::
  "(string \<Rightarrow> string) \<Rightarrow> string \<Rightarrow> string \<Rightarrow> ival \<Rightarrow> Model \<Rightarrow> error + Model" where
  "Where unicodeUpper col oper v m =
     (if \<not> index_bool validOperators (ToUpper unicodeUpper oper) then Inl ErrInvalidOperator
      else Inr (m\<lparr>query := (query m)\<lparr>wheres := wheres (query m) @
        [\<lparr>column = sanitizeColumn col, operator = ToUpper unicodeUpper oper, wvalue = v\<rparr>]\<rparr>\<rparr>))"

definition OrWhere ::
  "(string \<Rightarrow> string) \<Rightarrow> string \<Rightarrow> string \<Rightarrow> ival \<Rightarrow> Model \<Rightarrow> error + Model" where
  "OrWhere unicodeUpper col oper v m =
     (if \<not> index_bool validOperators (ToUpper unicodeUpper oper) then Inl ErrInvalidOperator
      else Inr (m\<lparr>query := (query m)\<lparr>orWheres := orWheres (query m) @
        [\<lparr>column = sanitizeColumn col, operator = ToUpper unicodeUpper oper, wvalue = v\<rparr>]\<rparr>\<rparr>))"


section \<open>Rendering\<close>

text \<open>
  The two loops of \<^verbatim>\<open>buildWhereClause\<close>. The second argument is the loop index
  \<^verbatim>\<open>i\<close>, the triple is \<^verbatim>\<open>(whereBuilder, values, paramIndex)\<close>. \<open>nonEmpty\<close> is the
  test \<^verbatim>\<open>len(m.query.wheres) > 0\<close> of the second loop.
\<close>

definition sprintf_pred :: "whereClause \<Rightarrow> int \<Rightarrow> string" where
  "sprintf_pred w paramIndex = column w @ '' '' @ operator w @ '' $'' @ fmt_d paramIndex"

fun wheres_loop ::
  "whereClause list \<Rightarrow> nat \<Rightarrow> string \<times> ival list \<times> int \<Rightarrow> string \<times> ival list \<times> int" where
  "wheres_loop [] i acc = acc"
| "wheres_loop (w # rest) i (whereBuilder, values, paramIndex) =
     wheres_loop rest (i + 1)
       ((if i > 0 then whereBuilder @ '' AND '' else whereBuilder) @ sprintf_pred w paramIndex,
        values @ [wvalue w], paramIndex + 1)"

fun orWheres_loop ::
  "bool \<Rightarrow> whereClause list \<Rightarrow> nat \<Rightarrow> string \<times> ival list \<times> int \<Rightarrow> string \<times> ival list \<times> int" where
  "orWheres_loop nonEmpty [] i acc = acc"
| "orWheres_loop nonEmpty (w # rest) i (whereBuilder, values, paramIndex) =
     orWheres_loop nonEmpty rest (i + 1)
       ((if nonEmpty \<or> i > 0 then whereBuilder @ '' OR '' else whereBuilder)
          @ sprintf_pred w paramIndex,
        values @ [wvalue w], paramIndex + 1)"

definition buildWhereClause :: "Model \<Rightarrow> int \<Rightarrow> string \<times> ival list" where
  "buildWhereClause m startIndex =
     (if length (wheres (query m)) = 0 \<and> length (orWheres (query m)) = 0 then ([], [])
      else
        let acc0 = ('' WHERE '', [], startIndex);
            acc1 = wheres_loop (wheres (query m)) 0 acc0;
            (whereBuilder, values, paramIndex) =
              orWheres_loop (length (wheres (query m)) > 0) (orWheres (query m)) 0 acc1
        in (whereBuilder, values))"

text \<open>The loops of \<^verbatim>\<open>buildSelectQuery\<close> over the joins and over the having clauses.\<close>

fun joins_loop :: "joinClause list \<Rightarrow> string \<times> ival list \<Rightarrow> string \<times> ival list" where
  "joins_loop [] acc = acc"
| "joins_loop (j # rest) (queryBuilder, values) =
     joins_loop rest
       (if condition j \<noteq> [] then
          (queryBuilder @ '' '' @ joinType j @ '' '' @ jtable j @ '' ON '' @ condition j,
           values @ args j)
        else (queryBuilder @ '' '' @ joinType j @ '' '' @ jtable j, values))"

fun having_loop ::
  "havingClause list \<Rightarrow> nat \<Rightarrow> string \<times> ival list \<Rightarrow> string \<times> ival list" where
  "having_loop [] i acc = acc"
| "having_loop (h # rest) i (queryBuilder, values) =
     having_loop rest (i + 1)
       ((if i > 0 then queryBuilder @ '' AND '' else queryBuilder) @ hcondition h,
        values @ hargs h)"

definition buildSelectQuery :: "Model \<Rightarrow> string \<times> ival list" where
  "buildSelectQuery m =
     (let q = query m;
          qb0 = ''SELECT '' @ Join (selections q) '', '' @ '' FROM '' @ table q;
          (qb1, values1) = joins_loop (joins q) (qb0, []);
          (whereClause, whereValues) = buildWhereClause m (int (length values1) + 1);
          qb2 = qb1 @ whereClause;
          values2 = values1 @ whereValues;
          qb3 = (if length (groupBy q) > 0
                 then qb2 @ '' GROUP BY '' @ Join (groupBy q) '', '' else qb2);
          (qb4, values4) =
            (if length (having q) > 0
             then having_loop (having q) 0 (qb3 @ '' HAVING '', values2)
             else (qb3, values2));
          qb5 = (if orderBy q \<noteq> []
                 then qb4 @ '' ORDER BY '' @ orderBy q @ '' '' @ orderDir q else qb4);
          qb6 = (if limit q > 0 then qb5 @ '' LIMIT '' @ fmt_d (limit q) else qb5);
          qb7 = (if offset q > 0 then qb6 @ '' OFFSET '' @ fmt_d (offset q) else qb6)
      in (qb7, values4))"

text \<open>
  Ranging over a Go map. The language leaves the order of \<^verbatim>\<open>for k, v := range m\<close>
  unspecified, and the runtime randomises it from one loop to the next. A run of
  such a loop is modelled by the list \<open>ks\<close> of the keys in the order this run
  visits them; \<open>range_order\<close> says that \<open>ks\<close> is such an order (every key once), and
  \<open>range_pairs\<close> is the sequence of pairs the loop body sees.
\<close>

definition range_order :: "(string \<rightharpoonup> ival) \<Rightarrow> string list \<Rightarrow> bool" where
  "range_order data ks \<longleftrightarrow> distinct ks \<and> set ks = dom data"

definition range_pairs :: "(string \<rightharpoonup> ival) \<Rightarrow> string list \<Rightarrow> (string \<times> ival) list" where
  "range_pairs data ks = List.map_filter (\<lambda>k. map_option (Pair k) (data k)) ks"

text \<open>
  The statement part of \<^verbatim>\<open>Update\<close> (from the allocation of \<^verbatim>\<open>sets\<close> to the
  \<^verbatim>\<open>fmt.Sprintf\<close> of the statement). The loop carries \<^verbatim>\<open>(sets, values, i)\<close>.
\<close>

fun update_loop ::
  "(string \<times> ival) list \<Rightarrow> string list \<times> ival list \<times> int \<Rightarrow> string list \<times> ival list \<times> int" where
  "update_loop [] acc = acc"
| "update_loop ((col, v) # rest) (sets, values, i) =
     update_loop rest (sets @ [sanitizeColumn col @ '' = $'' @ fmt_d i], values @ [v], i + 1)"

definition updateQuery :: "string list \<Rightarrow> (string \<rightharpoonup> ival) \<Rightarrow> Model \<Rightarrow> string \<times> ival list" where
  "updateQuery ks data m =
     (let (sets, values, i) = update_loop (range_pairs data ks) ([], [], 1);
          (whereClause, whereValues) = buildWhereClause m i;
          values' = values @ whereValues
      in (''UPDATE '' @ table (query m) @ '' SET '' @ Join sets '', '' @ whereClause, values'))"

text \<open>The statement part of \<^verbatim>\<open>Delete\<close>.\<close>

definition deleteQuery :: "Model \<Rightarrow> string \<times> ival list" where
  "deleteQuery m =
     (let (whereClause, values) = buildWhereClause m 1
      in (''DELETE FROM '' @ table (query m) @ whereClause, values))"

text \<open>
  The statement part of \<^verbatim>\<open>Create\<close>. \<open>create_newData\<close> is the copy of the caller's
  map with the two timestamps added (the copying loop stores every pair of
  \<^verbatim>\<open>data\<close> under its own key, so the copy is \<^verbatim>\<open>data\<close> whatever the order);
  \<open>now\<close> is the value of \<^verbatim>\<open>time.Now()\<close>. The second loop carries
  \<^verbatim>\<open>(columns, values, placeholders, i)\<close> and ranges over \<^verbatim>\<open>newData\<close> in the order
  \<open>ks\<close>.
\<close>

definition create_newData :: "ival \<Rightarrow> (string \<rightharpoonup> ival) \<Rightarrow> (string \<rightharpoonup> ival)" where
  "create_newData now data =
     (let newData = data;
          newData1 = (if newData ''created_at'' = None
                      then newData(''created_at'' \<mapsto> now) else newData);
          newData2 = (if newData1 ''updated_at'' = None
                      then newData1(''updated_at'' \<mapsto> now) else newData1)
      in newData2)"

fun create_loop ::
  "(string \<times> ival) list \<Rightarrow> string list \<times> ival list \<times> string list \<times> int
     \<Rightarrow> string list \<times> ival list \<times> string list \<times> int" where
  "create_loop [] acc = acc"
| "create_loop ((col, v) # rest) (columns, values, placeholders, i) =
     create_loop rest
       (columns @ [sanitizeColumn col], values @ [v], placeholders @ [''$'' @ fmt_d i], i + 1)"

definition createQuery ::
  "ival \<Rightarrow> string list \<Rightarrow> (string \<rightharpoonup> ival) \<Rightarrow> Model \<Rightarrow> string \<times> ival list" where
  "createQuery now ks data m =
     (let newData = create_newData now data;
          (columns, values, placeholders, i) =
             create_loop (range_pairs newData ks) ([], [], [], 1)
      in (''INSERT INTO '' @ table (query m) @ '' ('' @ Join columns '', '' @ '') VALUES (''
            @ Join placeholders '', '' @ '') RETURNING *'', values))"


section \<open>Statement cache and executor\<close>

text \<open>
  The database behind \<^verbatim>\<open>*sql.DB\<close> is outside the repository. It is modelled by
  the history of the calls made to it and by a \<open>Driver\<close>, which answers each call
  from the history so far: \<^verbatim>\<open>PrepareContext\<close> gives an error or a statement
  handle, \<^verbatim>\<open>QueryContext\<close> an error or a result set, \<^verbatim>\<open>ExecContext\<close> an error or
  a result whose \<^verbatim>\<open>RowsAffected()\<close> is again an error or a count. A result set
  gives the answer of \<^verbatim>\<open>rows.Columns()\<close> and, for every \<^verbatim>\<open>rows.Next()\<close> that
  succeeds, the answer of \<^verbatim>\<open>rows.Scan\<close>.
\<close>

datatype event =
    Prepared string
  | Queried nat "ival list"
  | Executed nat "ival list"

record Rows =
  Columns :: "error + string list"
  Scans :: "(error + ival list) list"

record Driver =
  PrepareContext :: "event list \<Rightarrow> string \<Rightarrow> error + nat"
  QueryContext :: "event list \<Rightarrow> nat \<Rightarrow> ival list \<Rightarrow> error + Rows"
  ExecContext :: "event list \<Rightarrow> nat \<Rightarrow> ival list \<Rightarrow> error + (error + int)"

text \<open>
  The struct \<^verbatim>\<open>Orm\<close>: the embedded \<^verbatim>\<open>*sql.DB\<close> (its call history), the flag
  \<^verbatim>\<open>queryLog\<close> and the map \<^verbatim>\<open>prepared\<close>. \<open>stdout\<close> collects what \<^verbatim>\<open>logQuery\<close>
  prints (the statement and its arguments; the duration is left out). The mutex
  \<^verbatim>\<open>mu\<close> has no counterpart: the model runs one caller at a time.
\<close>

record Orm =
  DB :: "event list"
  queryLog :: bool
  prepared :: "string \<rightharpoonup> nat"
  stdout :: "(string \<times> ival list) list"

definition logQuery :: "string \<Rightarrow> ival list \<Rightarrow> Orm \<Rightarrow> Orm" where
  "logQuery qry as db = db\<lparr>stdout := stdout db @ [(qry, as)]\<rparr>"

text \<open>
  \<^verbatim>\<open>if m.db.queryLog { defer logQuery(query, args, time.Now()) }\<close>: the flag is
  read when the statement has been rendered, the call runs when the method returns.
\<close>

definition deferred_logQuery :: "bool \<Rightarrow> string \<Rightarrow> ival list \<Rightarrow> Orm \<Rightarrow> Orm" where
  "deferred_logQuery flag qry as db = (if flag then logQuery qry as db else db)"

text \<open>
  \<^verbatim>\<open>prepareQuery\<close>: the lookup under the read lock, the second lookup under the
  write lock, then the compilation and the insertion into the cache.
\<close>

definition prepareQuery :: "Driver \<Rightarrow> string \<Rightarrow> Orm \<Rightarrow> (error + nat) \<times> Orm" where
  "prepareQuery drv qry db =
     (case prepared db qry of
        Some stmt \<Rightarrow> (Inr stmt, db)
      | None \<Rightarrow>
          (case prepared db qry of
             Some stmt \<Rightarrow> (Inr stmt, db)
           | None \<Rightarrow>
               (case PrepareContext drv (DB db) qry of
                  Inl err \<Rightarrow> (Inl err, db\<lparr>DB := DB db @ [Prepared qry]\<rparr>)
                | Inr stmt \<Rightarrow>
                    (Inr stmt,
                     db\<lparr>DB := DB db @ [Prepared qry], prepared := (prepared db)(qry \<mapsto> stmt)\<rparr>))))"

text \<open>
  \<^verbatim>\<open>scanRows\<close>. A row is the map built by \<^verbatim>\<open>row[col] = values[i]\<close> over the
  columns in order, so a later column of the same name overwrites an earlier one.
\<close>

definition row_map :: "string list \<Rightarrow> ival list \<Rightarrow> (string \<rightharpoonup> ival)" where
  "row_map cols vals = fold (\<lambda>(col, v) row. row(col \<mapsto> v)) (zip cols vals) Map.empty"

fun scan_loop ::
  "string list \<Rightarrow> (error + ival list) list \<Rightarrow> (string \<rightharpoonup> ival) list
     \<Rightarrow> error + (string \<rightharpoonup> ival) list" where
  "scan_loop cols [] results = Inr results"
| "scan_loop cols (Inl err # rest) results = Inl err"
| "scan_loop cols (Inr vals # rest) results = scan_loop cols rest (results @ [row_map cols vals])"

definition scanRows :: "Rows \<Rightarrow> error + (string \<rightharpoonup> ival) list" where
  "scanRows rows =
     (case Columns rows of
        Inl err \<Rightarrow> Inl err
      | Inr cols \<Rightarrow> scan_loop cols (Scans rows) [])"

text \<open>The terminal operations. Each returns its result and the \<^verbatim>\<open>Orm\<close> it leaves.\<close>

definition Get :: "Driver \<Rightarrow> Model \<Rightarrow> Orm \<Rightarrow> (error + (string \<rightharpoonup> ival) list) \<times> Orm" where
  "Get drv m db =
     (let (qry, as) = buildSelectQuery m;
          flag = queryLog db;
          (res, db1) =
            (case prepareQuery drv qry db of
               (Inl err, db') \<Rightarrow> (Inl (Wrap ''prepare query error'' err), db')
             | (Inr stmt, db') \<Rightarrow>
                 (case QueryContext drv (DB db') stmt as of
                    Inl err \<Rightarrow>
                      (Inl (Wrap ''query error'' err), db'\<lparr>DB := DB db' @ [Queried stmt as]\<rparr>)
                  | Inr rows \<Rightarrow> (scanRows rows, db'\<lparr>DB := DB db' @ [Queried stmt as]\<rparr>)))
      in (res, deferred_logQuery flag qry as db1))"

text \<open>
  \<^verbatim>\<open>First\<close> writes \<^verbatim>\<open>m.query.limit = 1\<close> into the builder it is called on, so the
  builder is returned as well.
\<close>

definition First ::
  "Driver \<Rightarrow> Model \<Rightarrow> Orm \<Rightarrow> (error + (string \<rightharpoonup> ival)) \<times> Model \<times> Orm" where
  "First drv m db =
     (let m' = m\<lparr>query := (query m)\<lparr>limit := 1\<rparr>\<rparr>;
          (res, db') = Get drv m' db
      in case res of
           Inl err \<Rightarrow> (Inl err, m', db')
         | Inr results \<Rightarrow>
             (if length results = 0 then (Inl ErrNoRows, m', db')
              else (Inr (results ! 0), m', db')))"

definition Create ::
  "Driver \<Rightarrow> ival \<Rightarrow> string list \<Rightarrow> (string \<rightharpoonup> ival) \<Rightarrow> Model \<Rightarrow> Orm
     \<Rightarrow> (error + (string \<rightharpoonup> ival)) \<times> Orm" where
  "Create drv now ks data m db =
     (if data = Map.empty then (Inl ErrInvalidValue, db)
      else
        let (qry, vals) = createQuery now ks data m;
            flag = queryLog db;
            (res, db1) =
              (case prepareQuery drv qry db of
                 (Inl err, db') \<Rightarrow> (Inl (Wrap ''prepare query error'' err), db')
               | (Inr stmt, db') \<Rightarrow>
                   (let db'' = db'\<lparr>DB := DB db' @ [Queried stmt vals]\<rparr> in
                    case QueryContext drv (DB db') stmt vals of
                      Inl err \<Rightarrow> (Inl (Wrap ''create error'' err), db'')
                    | Inr rows \<Rightarrow>
                        (case scanRows rows of
                           Inl err \<Rightarrow> (Inl (Wrap ''scan error'' err), db'')
                         | Inr results \<Rightarrow>
                             (if length results = 0
                              then (Inl (Errorf ''no data returned after insert''), db'')
                              else (Inr (results ! 0), db'')))))
        in (res, deferred_logQuery flag qry vals db1))"

definition Update ::
  "Driver \<Rightarrow> string list \<Rightarrow> (string \<rightharpoonup> ival) \<Rightarrow> Model \<Rightarrow> Orm \<Rightarrow> (error + int) \<times> Orm" where
  "Update drv ks data m db =
     (if data = Map.empty then (Inl ErrInvalidValue, db)
      else
        let (qry, vals) = updateQuery ks data m;
            flag = queryLog db;
            (res, db1) =
              (case prepareQuery drv qry db of
                 (Inl err, db') \<Rightarrow> (Inl (Wrap ''prepare query error'' err), db')
               | (Inr stmt, db') \<Rightarrow>
                   (let db'' = db'\<lparr>DB := DB db' @ [Executed stmt vals]\<rparr> in
                    case ExecContext drv (DB db') stmt vals of
                      Inl err \<Rightarrow> (Inl (Wrap ''update error'' err), db'')
                    | Inr rowsAffected \<Rightarrow> (rowsAffected, db'')))
        in (res, deferred_logQuery flag qry vals db1))"

definition Delete :: "Driver \<Rightarrow> Model \<Rightarrow> Orm \<Rightarrow> (error + int) \<times> Orm" where
  "Delete drv m db =
     (let (qry, vals) = deleteQuery m;
          flag = queryLog db;
          (res, db1) =
            (case prepareQuery drv qry db of
               (Inl err, db') \<Rightarrow> (Inl (Wrap ''prepare query error'' err), db')
             | (Inr stmt, db') \<Rightarrow>
                 (let db'' = db'\<lparr>DB := DB db' @ [Executed stmt vals]\<rparr> in
                  case ExecContext drv (DB db') stmt vals of
                    Inl err \<Rightarrow> (Inl (Wrap ''delete error'' err), db'')
                  | Inr rowsAffected \<Rightarrow> (rowsAffected, db'')))
      in (res, deferred_logQuery flag qry vals db1))"


section \<open>The specification's rendering rules\<close>

text \<open>
  The definitions of this section follow the words of the specification, not the
  code; the theorems below compare the two. \<open>numbered n xs\<close> gives the elements
  of \<open>xs\<close> the numbers \<open>n\<close>, \<open>n + 1\<close>, ... in order.
\<close>

primrec numbered :: "int \<Rightarrow> 'a list \<Rightarrow> (int \<times> 'a) list" where
  "numbered n [] = []"
| "numbered n (x # xs) = (n, x) # numbered (n + 1) xs"

text \<open>A predicate with its placeholder: \<^verbatim>\<open>column operator $n\<close>.\<close>

definition spec_pred :: "int \<times> whereClause \<Rightarrow> string" where
  "spec_pred np = column (snd np) @ '' '' @ operator (snd np) @ '' $'' @ fmt_d (fst np)"

text \<open>
  The where-clause rendering algorithm of the specification: nothing when both
  groups are empty; otherwise \<^verbatim>\<open>WHERE\<close>, the AND-predicates joined with \<^verbatim>\<open>AND\<close>,
  then the OR-predicates joined with \<^verbatim>\<open>OR\<close>, after a leading \<^verbatim>\<open>OR\<close> exactly when
  the AND-group is not empty; placeholders count up from \<open>start\<close> through the
  AND-group and on through the OR-group.
\<close>

definition spec_where :: "whereClause list \<Rightarrow> whereClause list \<Rightarrow> int \<Rightarrow> string" where
  "spec_where ands ors start =
     (let ps = map spec_pred (numbered start (ands @ ors));
          and_group = take (length ands) ps;
          or_group = drop (length ands) ps
      in if ands = [] \<and> ors = [] then []
         else '' WHERE '' @ Join and_group '' AND ''
           @ (if ors = [] then []
              else (if ands \<noteq> [] then '' OR '' else []) @ Join or_group '' OR ''))"

text \<open>An assignment of the SET clause, \<^verbatim>\<open>col = $n\<close>, and a bare placeholder \<^verbatim>\<open>$n\<close>.\<close>

definition spec_assign :: "int \<times> string \<Rightarrow> string" where
  "spec_assign nk = sanitizeColumn (snd nk) @ '' = $'' @ fmt_d (fst nk)"

definition spec_placeholder :: "int \<Rightarrow> string" where
  "spec_placeholder n = ''$'' @ fmt_d n"

text \<open>The operator allow-list of the specification.\<close>

definition allow_list :: "string set" where
  "allow_list =
     {''='', ''<>'', ''>'', ''<'', ''>='', ''<='', ''LIKE'', ''NOT LIKE'', ''IN'', ''NOT IN'',
      ''IS NULL'', ''IS NOT NULL''}"

text \<open>
  Upper-casing of ASCII: a letter of \<^verbatim>\<open>a..z\<close> becomes the letter of \<^verbatim>\<open>A..Z\<close> at
  the same position, every other byte stays.
\<close>

definition ascii_upper :: "char \<Rightarrow> char" where
  "ascii_upper c =
     (case map_of (zip ''abcdefghijklmnopqrstuvwxyz'' ''ABCDEFGHIJKLMNOPQRSTUVWXYZ'') c of
        None \<Rightarrow> c
      | Some u \<Rightarrow> u)"

text \<open>
  A chain of builder calls: the next method runs on the builder the previous one
  returned, and a panic ends the chain.
\<close>

definition and_then :: "error + 'a \<Rightarrow> ('a \<Rightarrow> error + 'b) \<Rightarrow> error + 'b" where
  "and_then r f = (case r of Inl err \<Rightarrow> Inl err | Inr x \<Rightarrow> f x)"


section \<open>An example database\<close>

text \<open>
  A driver, a pool and a builder for the concrete runs below. The driver compiles
  every statement (the handle is the number of calls made so far), answers a query
  whose only argument is \<open>42\<close> with no rows and every other query with two rows,
  and reports one affected row for every write.
\<close>

definition example_rows :: Rows where
  "example_rows =
     \<lparr>Columns = Inr [''id'', ''username''],
      Scans = [Inr [VInt 1, VString ''alice''], Inr [VInt 2, VString ''bob'']]\<rparr>"

definition example_driver :: Driver where
  "example_driver =
     \<lparr>PrepareContext = (\<lambda>h q. Inr (length h)),
      QueryContext = (\<lambda>h stmt as.
         if as = [VInt 42] then Inr \<lparr>Columns = Inr [''id'', ''username''], Scans = []\<rparr>
         else Inr example_rows),
      ExecContext = (\<lambda>h stmt as. Inr (Inr 1))\<rparr>"

definition example_orm :: Orm where
  "example_orm = \<lparr>DB = [], queryLog = True, prepared = Map.empty, stdout = []\<rparr>"

definition example_builder :: "ival \<Rightarrow> Model" where
  "example_builder v =
     \<lparr>query = \<lparr>table = ''users'', selections = [''id'', ''username''],
        wheres = [\<lparr>column = ''id'', operator = ''='', wvalue = v\<rparr>], orWheres = [], joins = [],
        limit = 0, offset = 0, orderBy = [], orderDir = [], groupBy = [], having = []\<rparr>\<rparr>"


section \<open>Properties of the helpers\<close>

lemma fmt_d_1: "fmt_d 1 = ''1''"
  by (simp add: fmt_d_def fmt_nat.simps digit_char_def)

lemma fmt_d_2: "fmt_d 2 = ''2''"
  by (simp add: fmt_d_def fmt_nat.simps digit_char_def)

lemma fmt_d_3: "fmt_d 3 = ''3''"
  by (simp add: fmt_d_def fmt_nat.simps digit_char_def)

lemma fmt_d_4: "fmt_d 4 = ''4''"
  by (simp add: fmt_d_def fmt_nat.simps digit_char_def)

lemma keep_rune_iff: "keep_rune r \<longleftrightarrow> r \<in> ident_chars"
proof (cases r)
  case (Char b0 b1 b2 b3 b4 b5 b6 b7)
  show ?thesis unfolding Char keep_rune_def ident_chars_def
    by (cases b0; cases b1; cases b2; cases b3; cases b4; cases b5; cases b6; cases b7; simp)
qed

lemma sanitizeColumn_filter: "sanitizeColumn s = filter keep_rune s"
  by (induction s) (simp_all add: sanitizeColumn_def Map_str_def List.map_filter_def)

lemma upper_byte_ascii_upper: "upper_byte c = ascii_upper c"
proof (cases c)
  case (Char b0 b1 b2 b3 b4 b5 b6 b7)
  show ?thesis unfolding Char upper_byte_def ascii_upper_def
    by (cases b0; cases b1; cases b2; cases b3; cases b4; cases b5; cases b6; cases b7;
        simp add: char_of_def bit_Suc_0_iff)
qed

lemma numbered_fst: "map fst (numbered n xs) = [n..n + int (length xs) - 1]"
proof (induction xs arbitrary: n)
  case Nil
  then show ?case by simp
next
  case (Cons x xs)
  have "[n..n + int (length (x # xs)) - 1] = n # [n + 1..n + 1 + int (length xs) - 1]"
    by (subst upto_rec1) simp_all
  then show ?case using Cons.IH [of "n + 1"] by simp
qed

lemma numbered_length: "length (numbered n xs) = length xs"
  by (induction xs arbitrary: n) simp_all

lemma numbered_append:
  "numbered n (xs @ ys) = numbered n xs @ numbered (n + int (length xs)) ys"
  by (induction xs arbitrary: n) (simp_all add: add.assoc)

lemma range_pairs_order:
  "set ks \<subseteq> dom data \<Longrightarrow> range_pairs data ks = map (\<lambda>k. (k, the (data k))) ks"
  by (induction ks) (auto simp: range_pairs_def List.map_filter_def)


section \<open>The loops in closed form\<close>

lemma wheres_loop_pos:
  "i > 0 \<Longrightarrow> wheres_loop ws i (b, vs, p) =
     (b @ concat (map (\<lambda>np. '' AND '' @ spec_pred np) (numbered p ws)),
      vs @ map wvalue ws, p + int (length ws))"
  by (induction ws arbitrary: i b vs p) (simp_all add: spec_pred_def sprintf_pred_def)

lemma wheres_loop_0:
  "wheres_loop ws 0 (b, vs, p) =
     (b @ Join (map spec_pred (numbered p ws)) '' AND '', vs @ map wvalue ws,
      p + int (length ws))"
  by (cases ws) (simp_all add: wheres_loop_pos spec_pred_def sprintf_pred_def comp_def)

lemma orWheres_loop_sep:
  "ne \<or> i > 0 \<Longrightarrow> orWheres_loop ne ws i (b, vs, p) =
     (b @ concat (map (\<lambda>np. '' OR '' @ spec_pred np) (numbered p ws)),
      vs @ map wvalue ws, p + int (length ws))"
  by (induction ws arbitrary: i b vs p) (simp_all add: spec_pred_def sprintf_pred_def)

lemma orWheres_loop_0:
  "orWheres_loop ne ws 0 (b, vs, p) =
     (b @ (if ws = [] then [] else (if ne then '' OR '' else [])
             @ Join (map spec_pred (numbered p ws)) '' OR ''),
      vs @ map wvalue ws, p + int (length ws))"
  by (cases ws) (simp_all add: orWheres_loop_sep spec_pred_def sprintf_pred_def comp_def)

lemma buildWhereClause_eq:
  "buildWhereClause m start =
     (spec_where (wheres (query m)) (orWheres (query m)) start,
      map wvalue (wheres (query m)) @ map wvalue (orWheres (query m)))"
  by (simp add: buildWhereClause_def spec_where_def wheres_loop_0 orWheres_loop_0 Let_def
      numbered_append numbered_length)

lemma update_loop_eq:
  "update_loop kvs (sets, vals, i) =
     (sets @ map spec_assign (numbered i (map fst kvs)), vals @ map snd kvs,
      i + int (length kvs))"
  by (induction kvs arbitrary: sets vals i) (auto simp: spec_assign_def)

lemma create_loop_eq:
  "create_loop kvs (cols, vals, phs, i) =
     (cols @ map (sanitizeColumn \<circ> fst) kvs, vals @ map snd kvs,
      phs @ map (spec_placeholder \<circ> fst) (numbered i kvs), i + int (length kvs))"
  by (induction kvs arbitrary: cols vals phs i) (auto simp: spec_placeholder_def)

lemma updateQuery_eq:
  assumes "range_order data ks"
  shows "updateQuery ks data m =
     (''UPDATE '' @ table (query m) @ '' SET '' @ Join (map spec_assign (numbered 1 ks)) '', ''
        @ spec_where (wheres (query m)) (orWheres (query m)) (1 + int (length ks)),
      map (\<lambda>k. the (data k)) ks @ map wvalue (wheres (query m))
        @ map wvalue (orWheres (query m)))"
proof -
  from assms have "set ks \<subseteq> dom data" by (simp add: range_order_def)
  then have rp: "range_pairs data ks = map (\<lambda>k. (k, the (data k))) ks"
    by (rule range_pairs_order)
  show ?thesis
    by (simp add: updateQuery_def rp update_loop_eq buildWhereClause_eq comp_def)
qed

lemma createQuery_eq:
  assumes "range_order (create_newData now data) ks"
  shows "createQuery now ks data m =
     (''INSERT INTO '' @ table (query m) @ '' ('' @ Join (map sanitizeColumn ks) '', ''
        @ '') VALUES ('' @ Join (map spec_placeholder [1..int (length ks)]) '', ''
        @ '') RETURNING *'',
      map (\<lambda>k. the (create_newData now data k)) ks)"
proof -
  from assms have "set ks \<subseteq> dom (create_newData now data)" by (simp add: range_order_def)
  then have rp: "range_pairs (create_newData now data) ks
      = map (\<lambda>k. (k, the (create_newData now data k))) ks"
    by (rule range_pairs_order)
  have "map (spec_placeholder \<circ> fst) (numbered 1 (map (\<lambda>k. (k, the (create_newData now data k))) ks))
      = map spec_placeholder (map fst (numbered 1 (map (\<lambda>k. (k, the (create_newData now data k))) ks)))"
    by simp
  also have "\<dots> = map spec_placeholder [1..int (length ks)]"
    by (simp only: numbered_fst) simp
  finally have ph: "map (spec_placeholder \<circ> fst)
        (numbered 1 (map (\<lambda>k. (k, the (create_newData now data k))) ks))
      = map spec_placeholder [1..int (length ks)]" .
  show ?thesis
    by (simp add: createQuery_def rp create_loop_eq ph [unfolded comp_def] comp_def Let_def)
qed

lemma create_newData_dom:
  "dom (create_newData now data) = dom data \<union> {''created_at'', ''updated_at''}"
  by (auto simp: create_newData_def Let_def split: if_splits)

lemma create_newData_keeps: "k \<in> dom data \<Longrightarrow> create_newData now data k = data k"
  by (auto simp: create_newData_def Let_def)

lemma create_newData_created:
  "''created_at'' \<notin> dom data \<Longrightarrow> create_newData now data ''created_at'' = Some now"
  by (auto simp: create_newData_def Let_def)

lemma create_newData_updated:
  "''updated_at'' \<notin> dom data \<Longrightarrow> create_newData now data ''updated_at'' = Some now"
  by (auto simp: create_newData_def Let_def)

lemma DB_deferred_logQuery: "DB (deferred_logQuery flag qry as db) = DB db"
  by (simp add: deferred_logQuery_def logQuery_def)

lemma Create_executes:
  assumes "data \<noteq> Map.empty"
    and "prepareQuery drv (fst (createQuery now ks data m)) db = (Inr stmt, db')"
  shows "DB (snd (Create drv now ks data m db))
     = DB db' @ [Queried stmt (snd (createQuery now ks data m))]"
  using assms
  by (cases "createQuery now ks data m")
     (simp add: Create_def DB_deferred_logQuery Let_def split: sum.splits)

lemma Update_executes:
  assumes "data \<noteq> Map.empty"
    and "prepareQuery drv (fst (updateQuery ks data m)) db = (Inr stmt, db')"
  shows "DB (snd (Update drv ks data m db))
     = DB db' @ [Executed stmt (snd (updateQuery ks data m))]"
  using assms
  by (cases "updateQuery ks data m")
     (simp add: Update_def DB_deferred_logQuery Let_def split: sum.splits)

lemma index_bool_validOperators: "index_bool validOperators s \<longleftrightarrow> s \<in> allow_list"
  by (simp add: validOperators_def index_bool_def allow_list_def)

lemma buildSelectQuery_limit_1:
  "fst (buildSelectQuery (m\<lparr>query := (query m)\<lparr>limit := 1\<rparr>\<rparr>))
     = fst (buildSelectQuery (m\<lparr>query := (query m)\<lparr>limit := 0, offset := 0\<rparr>\<rparr>))
         @ '' LIMIT 1''
         @ (if offset (query m) > 0 then '' OFFSET '' @ fmt_d (offset (query m)) else [])"
  by (simp add: buildSelectQuery_def buildWhereClause_eq Let_def split_def fmt_d_1)

lemma Get_zero_rows:
  assumes "prepareQuery drv (fst (buildSelectQuery m)) db = (Inr stmt, db')"
    and "QueryContext drv (DB db') stmt (snd (buildSelectQuery m)) = Inr rows"
    and "Columns rows = Inr cols" and "Scans rows = []"
  shows "fst (Get drv m db) = Inr []"
  using assms
  by (cases "buildSelectQuery m") (simp add: Get_def scanRows_def Let_def)

lemma example_builder_chain:
  "Where u ''id'' ''='' v (Select [''id'', ''username''] (Table ''users'')) = Inr (example_builder v)"
  by (simp add: Where_def index_bool_validOperators allow_list_def ToUpper_def isASCII_def
      upper_byte_def sanitizeColumn_filter keep_rune_def Table_def Select_def
      sanitizeColumns_def example_builder_def)

lemma range_order_mset:
  "range_order data ks1 \<Longrightarrow> range_order data ks2 \<Longrightarrow> mset ks1 = mset ks2"
  by (simp add: range_order_def set_eq_iff_mset_eq_distinct [symmetric])

lemma range_order_length: "range_order data ks \<Longrightarrow> length ks = card (dom data)"
  using distinct_card [of ks] by (simp add: range_order_def)

text \<open>
  The statement cache, one caller at a time: a statement that is in the cache is
  returned without a call to the database, and a statement that has been compiled
  is in the cache afterwards.
\<close>

lemma prepareQuery_hit:
  "prepared db qry = Some stmt \<Longrightarrow> prepareQuery drv qry db = (Inr stmt, db)"
  by (simp add: prepareQuery_def)

lemma prepareQuery_caches:
  "prepareQuery drv qry db = (Inr stmt, db') \<Longrightarrow> prepared db' qry = Some stmt"
  by (auto simp: prepareQuery_def split: option.splits sum.splits)

lemma prepareQuery_again:
  "prepareQuery drv qry db = (Inr stmt, db') \<Longrightarrow> prepareQuery drv qry db' = (Inr stmt, db')"
  by (rule prepareQuery_hit) (rule prepareQuery_caches)


section \<open>The sanitizer and where it is applied\<close>

text \<open>
  C5. For every identifier \<open>s\<close>, \<open>sanitizeColumn s\<close> holds only characters of
  \<^verbatim>\<open>[A-Za-z0-9_]\<close> and is a subsequence of \<open>s\<close>: it is \<open>s\<close> with every other
  character dropped, nothing escaped and nothing rejected. The function is a
  function of its argument alone.
\<close>

theorem sanitizeColumn_ident_subseq:
  "set (sanitizeColumn s) \<subseteq> ident_chars \<and> subseq (sanitizeColumn s) s
   \<and> sanitizeColumn s = filter (\<lambda>c. c \<in> ident_chars) s"
proof -
  have "keep_rune = (\<lambda>c. c \<in> ident_chars)"
    by (rule ext) (rule keep_rune_iff)
  then show ?thesis
    by (auto simp: sanitizeColumn_filter keep_rune_iff)
qed

theorem sanitizeColumn_ident_subseq_witness:
  "sanitizeColumn ''user-name; DROP'' = ''usernameDROP''
   \<and> subseq ''usernameDROP'' ''user-name; DROP''
   \<and> set ''usernameDROP'' \<subseteq> ident_chars"
  using sanitizeColumn_ident_subseq [of "''user-name; DROP''"]
  by (simp add: sanitizeColumn_filter keep_rune_def)


text \<open>
  C1 (the code departs from it). The claim: every table name and every column name
  passes through the sanitizer before it is embedded in a statement; in particular
  the table part of what \<^verbatim>\<open>Get\<close>, \<^verbatim>\<open>Create\<close>, \<^verbatim>\<open>Update\<close> and \<^verbatim>\<open>Delete\<close> render holds
  only characters of \<^verbatim>\<open>[A-Za-z0-9_]\<close>. \<^verbatim>\<open>Table\<close> stores its argument as it is, and
  the four statements embed it as it is: at the table name
  \<^verbatim>\<open>users; DROP TABLE users --\<close> every statement carries the semicolon, the blanks
  and the dashes. The join methods do pass their table name through
  \<^verbatim>\<open>sanitizeTableName\<close> (last line).
\<close>

theorem Table_name_embedded_unsanitized:
  "fst (buildSelectQuery (Table ''users; DROP TABLE users --''))
     = ''SELECT users; DROP TABLE users --.* FROM users; DROP TABLE users --''
   \<and> fst (deleteQuery (Table ''users; DROP TABLE users --''))
     = ''DELETE FROM users; DROP TABLE users --''
   \<and> fst (updateQuery [''a''] [''a'' \<mapsto> VInt 1] (Table ''users; DROP TABLE users --''))
     = ''UPDATE users; DROP TABLE users -- SET a = $1''
   \<and> fst (createQuery (VTime 0) [''a'', ''created_at'', ''updated_at''] [''a'' \<mapsto> VInt 1]
        (Table ''users; DROP TABLE users --''))
     = ''INSERT INTO users; DROP TABLE users -- (a, created_at, updated_at) VALUES ($1, $2, $3) RETURNING *''
   \<and> map jtable (joins (query (Join_inner ''users; DROP TABLE users --'' ''x = y'' [] (Table ''t''))))
     = [''usersDROPTABLEusers'']"
  by (simp add: buildSelectQuery_def deleteQuery_def updateQuery_def createQuery_def
      buildWhereClause_def Table_def range_pairs_def List.map_filter_def create_newData_def
      sanitizeColumn_filter keep_rune_def fmt_d_1 fmt_d_2 fmt_d_3 Join_inner_def addJoin_def
      sanitizeTableName_def)


section \<open>The operator allow-list\<close>

text \<open>
  C4. \<^verbatim>\<open>validOperators\<close> accepts exactly the twelve operators of the allow-list.
  \<^verbatim>\<open>Where\<close> and \<^verbatim>\<open>OrWhere\<close> test the upper-cased operator: outside the list both
  fail with \<open>ErrInvalidOperator\<close> and return no builder, so no predicate is stored
  and no statement can be rendered from the call; inside the list they append one
  predicate whose operator is the upper-cased input (and whose column is
  sanitized). On an ASCII operator the upper-casing is the byte-wise one, so the
  test does not depend on the case of the input.
\<close>

theorem Where_operator_allow_list:
  "index_bool validOperators s = (s \<in> allow_list)
   \<and> (ToUpper u oper \<notin> allow_list \<longrightarrow>
        Where u col oper v m = Inl ErrInvalidOperator
        \<and> OrWhere u col oper v m = Inl ErrInvalidOperator)
   \<and> (ToUpper u oper \<in> allow_list \<longrightarrow>
        Where u col oper v m =
          Inr (m\<lparr>query := (query m)\<lparr>wheres := wheres (query m) @
            [\<lparr>column = sanitizeColumn col, operator = ToUpper u oper, wvalue = v\<rparr>]\<rparr>\<rparr>)
        \<and> OrWhere u col oper v m =
          Inr (m\<lparr>query := (query m)\<lparr>orWheres := orWheres (query m) @
            [\<lparr>column = sanitizeColumn col, operator = ToUpper u oper, wvalue = v\<rparr>]\<rparr>\<rparr>))
   \<and> (isASCII oper \<longrightarrow> ToUpper u oper = map ascii_upper oper)"
proof -
  have "map upper_byte oper = map ascii_upper oper"
    by (simp add: upper_byte_ascii_upper)
  then show ?thesis
    by (simp add: Where_def OrWhere_def index_bool_validOperators ToUpper_def)
qed

theorem Where_operator_allow_list_witness:
  "Where id ''name'' ''like'' (VString ''a%'') (Table ''users'') =
     Inr ((Table ''users'')\<lparr>query := (query (Table ''users''))\<lparr>wheres :=
        [\<lparr>column = ''name'', operator = ''LIKE'', wvalue = VString ''a%''\<rparr>]\<rparr>\<rparr>)
   \<and> OrWhere id ''na-me'' ''Not In'' VNil (Table ''users'') =
     Inr ((Table ''users'')\<lparr>query := (query (Table ''users''))\<lparr>orWheres :=
        [\<lparr>column = ''name'', operator = ''NOT IN'', wvalue = VNil\<rparr>]\<rparr>\<rparr>)
   \<and> Where id ''id'' ''= 1; DROP TABLE users'' (VInt 1) (Table ''users'') = Inl ErrInvalidOperator
   \<and> OrWhere id ''id'' ''='' (VInt 1) (Table ''users'') \<noteq> Inl ErrInvalidOperator
   \<and> OrWhere id ''id'' ''=='' (VInt 1) (Table ''users'') = Inl ErrInvalidOperator"
  using Where_operator_allow_list [of "''=''" id "''like''" "''name''" "VString ''a%''" "Table ''users''"]
    Where_operator_allow_list [of "''=''" id "''Not In''" "''na-me''" "VNil" "Table ''users''"]
    Where_operator_allow_list [of "''=''" id "''= 1; DROP TABLE users''" "''id''" "VInt 1" "Table ''users''"]
    Where_operator_allow_list [of "''=''" id "''=''" "''id''" "VInt 1" "Table ''users''"]
    Where_operator_allow_list [of "''=''" id "''==''" "''id''" "VInt 1" "Table ''users''"]
  by (simp add: ToUpper_def isASCII_def upper_byte_ascii_upper ascii_upper_def allow_list_def
      sanitizeColumn_filter keep_rune_def Table_def)


section \<open>The where clause\<close>

text \<open>
  C2. For every builder and every start index, \<^verbatim>\<open>buildWhereClause\<close> renders the
  text of the specification's algorithm (\<open>spec_where\<close>: nothing when both groups
  are empty, otherwise \<^verbatim>\<open>WHERE\<close>, the AND-group joined with \<^verbatim>\<open>AND\<close>, then the
  OR-group joined with \<^verbatim>\<open>OR\<close> with a leading \<^verbatim>\<open>OR\<close> exactly when the AND-group is
  not empty) and returns the values of the AND-group followed by those of the
  OR-group; the placeholders are \<open>start\<close>, \<open>start + 1\<close>, ... in that order. The
  chain \<^verbatim>\<open>Table("users").Where("id","=",1).OrWhere("id","=",2).Get()\<close> renders
  \<^verbatim>\<open>WHERE id = $1 OR id = $2\<close>.
\<close>

theorem buildWhereClause_follows_spec:
  "buildWhereClause m start =
     (spec_where (wheres (query m)) (orWheres (query m)) start,
      map wvalue (wheres (query m) @ orWheres (query m)))
   \<and> map fst (numbered start (wheres (query m) @ orWheres (query m))) =
       [start..start + int (length (wheres (query m) @ orWheres (query m))) - 1]
   \<and> map_sum id buildSelectQuery
        (and_then (Where u ''id'' ''='' (VInt 1) (Table ''users'')) (OrWhere u ''id'' ''='' (VInt 2)))
       = Inr (''SELECT users.* FROM users WHERE id = $1 OR id = $2'', [VInt 1, VInt 2])"
proof -
  have up: "ToUpper u ''='' = ''=''"
    by (simp add: ToUpper_def isASCII_def upper_byte_def)
  have ok: "index_bool validOperators ''=''"
    by (simp add: index_bool_validOperators allow_list_def)
  have id: "sanitizeColumn ''id'' = ''id''"
    by (simp add: sanitizeColumn_filter keep_rune_def)
  have ex: "map_sum id buildSelectQuery
        (and_then (Where u ''id'' ''='' (VInt 1) (Table ''users'')) (OrWhere u ''id'' ''='' (VInt 2)))
       = Inr (''SELECT users.* FROM users WHERE id = $1 OR id = $2'', [VInt 1, VInt 2])"
    by (simp add: and_then_def Where_def OrWhere_def up ok id Table_def buildSelectQuery_def
        buildWhereClause_eq spec_where_def spec_pred_def fmt_d_1 fmt_d_2)
  show ?thesis
    using ex by (simp add: buildWhereClause_eq numbered_fst)
qed

theorem buildWhereClause_follows_spec_witness:
  "buildWhereClause
     \<lparr>query = \<lparr>table = ''t'', selections = [''t.*''],
        wheres = [\<lparr>column = ''a'', operator = ''='', wvalue = VInt 7\<rparr>,
                  \<lparr>column = ''b'', operator = ''LIKE'', wvalue = VString ''x%''\<rparr>],
        orWheres = [\<lparr>column = ''c'', operator = ''<'', wvalue = VInt 9\<rparr>],
        joins = [], limit = 0, offset = 0, orderBy = [], orderDir = [], groupBy = [],
        having = []\<rparr>\<rparr> 2
     = ('' WHERE a = $2 AND b LIKE $3 OR c < $4'', [VInt 7, VString ''x%'', VInt 9])
   \<and> buildWhereClause
     \<lparr>query = \<lparr>table = ''t'', selections = [''t.*''], wheres = [],
        orWheres = [\<lparr>column = ''c'', operator = ''<'', wvalue = VInt 9\<rparr>,
                    \<lparr>column = ''d'', operator = ''>'', wvalue = VInt 1\<rparr>],
        joins = [], limit = 0, offset = 0, orderBy = [], orderDir = [], groupBy = [],
        having = []\<rparr>\<rparr> 1
     = ('' WHERE c < $1 OR d > $2'', [VInt 9, VInt 1])
   \<and> buildWhereClause (Table ''t'') 1 = ([], [])"
  using buildWhereClause_follows_spec [of
     "\<lparr>query = \<lparr>table = ''t'', selections = [''t.*''],
        wheres = [\<lparr>column = ''a'', operator = ''='', wvalue = VInt 7\<rparr>,
                  \<lparr>column = ''b'', operator = ''LIKE'', wvalue = VString ''x%''\<rparr>],
        orWheres = [\<lparr>column = ''c'', operator = ''<'', wvalue = VInt 9\<rparr>],
        joins = [], limit = 0, offset = 0, orderBy = [], orderDir = [], groupBy = [],
        having = []\<rparr>\<rparr>" 2 id]
    buildWhereClause_follows_spec [of
     "\<lparr>query = \<lparr>table = ''t'', selections = [''t.*''], wheres = [],
        orWheres = [\<lparr>column = ''c'', operator = ''<'', wvalue = VInt 9\<rparr>,
                    \<lparr>column = ''d'', operator = ''>'', wvalue = VInt 1\<rparr>],
        joins = [], limit = 0, offset = 0, orderBy = [], orderDir = [], groupBy = [],
        having = []\<rparr>\<rparr>" 1 id]
    buildWhereClause_follows_spec [of "Table ''t''" 1 id]
  by (simp add: spec_where_def spec_pred_def fmt_d_1 fmt_d_2 fmt_d_3 fmt_d_4 Table_def)


section \<open>Update\<close>

text \<open>
  C8. For every non-empty fields map, every order \<open>ks\<close> in which the map is ranged
  over and every builder, \<^verbatim>\<open>Update\<close> renders \<^verbatim>\<open>UPDATE table SET col = $n, ...\<close>
  followed by the where clause; the SET placeholders are \<open>1, ..., length ks\<close> and
  the where clause goes on from \<open>length ks + 1\<close>, so the placeholders of the whole
  statement are \<open>1, 2, ...\<close> without a gap; the arguments are the SET values in
  placeholder order followed by the where values in placeholder order. When the
  statement compiles, \<^verbatim>\<open>Update\<close> executes its handle with these arguments.
\<close>

theorem Update_numbering_continues:
  "data \<noteq> Map.empty \<Longrightarrow> range_order data ks \<Longrightarrow>
     updateQuery ks data m =
       (''UPDATE '' @ table (query m) @ '' SET '' @ Join (map spec_assign (numbered 1 ks)) '', ''
          @ spec_where (wheres (query m)) (orWheres (query m)) (1 + int (length ks)),
        map (\<lambda>k. the (data k)) ks @ map wvalue (wheres (query m) @ orWheres (query m)))
     \<and> map fst (numbered 1 ks)
         @ map fst (numbered (1 + int (length ks)) (wheres (query m) @ orWheres (query m)))
       = [1..int (length ks + length (wheres (query m)) + length (orWheres (query m)))]
     \<and> (\<forall>stmt db'. prepareQuery drv (fst (updateQuery ks data m)) db = (Inr stmt, db')
          \<longrightarrow> DB (snd (Update drv ks data m db))
              = DB db' @ [Executed stmt (snd (updateQuery ks data m))])"
proof -
  assume ne: "data \<noteq> Map.empty" and ro: "range_order data ks"
  have "map fst (numbered 1 ks)
         @ map fst (numbered (1 + int (length ks)) (wheres (query m) @ orWheres (query m)))
       = map fst (numbered 1 (map Inl ks @ map Inr (wheres (query m) @ orWheres (query m))))"
    by (simp add: numbered_append numbered_fst)
  also have "\<dots> = [1..int (length ks + length (wheres (query m)) + length (orWheres (query m)))]"
    by (simp only: numbered_fst) (simp add: add.assoc)
  finally show ?thesis
    using updateQuery_eq [OF ro, of m] Update_executes [OF ne, of drv ks m db]
    by simp
qed

theorem Update_numbering_continues_witness:
  "map_sum id (updateQuery [''email''] [''email'' \<mapsto> VString ''new@x.com''])
       (Where id ''id'' ''='' (VInt 1) (Table ''users''))
     = Inr (''UPDATE users SET email = $1 WHERE id = $2'', [VString ''new@x.com'', VInt 1])
   \<and> updateQuery [''b'', ''a''] [''a'' \<mapsto> VInt 1, ''b'' \<mapsto> VInt 2]
       \<lparr>query = \<lparr>table = ''t'', selections = [''t.*''],
          wheres = [\<lparr>column = ''c'', operator = ''='', wvalue = VInt 3\<rparr>],
          orWheres = [\<lparr>column = ''d'', operator = ''<'', wvalue = VInt 4\<rparr>],
          joins = [], limit = 0, offset = 0, orderBy = [], orderDir = [], groupBy = [],
          having = []\<rparr>\<rparr>
     = (''UPDATE t SET b = $1, a = $2 WHERE c = $3 OR d < $4'', [VInt 2, VInt 1, VInt 3, VInt 4])"
proof -
  have w: "Where id ''id'' ''='' (VInt 1) (Table ''users'')
     = Inr ((Table ''users'')\<lparr>query := (query (Table ''users''))\<lparr>wheres :=
         [\<lparr>column = ''id'', operator = ''='', wvalue = VInt 1\<rparr>]\<rparr>\<rparr>)"
    by (simp add: Where_def index_bool_validOperators allow_list_def ToUpper_def isASCII_def
        upper_byte_def sanitizeColumn_filter keep_rune_def Table_def)
  have ne1: "[''email'' \<mapsto> VString ''new@x.com''] \<noteq> Map.empty" by simp
  have ro1: "range_order [''email'' \<mapsto> VString ''new@x.com''] [''email'']"
    by (simp add: range_order_def)
  have ne2: "[''a'' \<mapsto> VInt 1, ''b'' \<mapsto> VInt 2] \<noteq> Map.empty" by simp
  have ro2: "range_order [''a'' \<mapsto> VInt 1, ''b'' \<mapsto> VInt 2] [''b'', ''a'']"
    by (auto simp: range_order_def)
  show ?thesis
    unfolding w
    using Update_numbering_continues [OF ne1 ro1,
        of "(Table ''users'')\<lparr>query := (query (Table ''users''))\<lparr>wheres :=
         [\<lparr>column = ''id'', operator = ''='', wvalue = VInt 1\<rparr>]\<rparr>\<rparr>" example_driver example_orm]
      Update_numbering_continues [OF ne2 ro2,
        of "\<lparr>query = \<lparr>table = ''t'', selections = [''t.*''],
          wheres = [\<lparr>column = ''c'', operator = ''='', wvalue = VInt 3\<rparr>],
          orWheres = [\<lparr>column = ''d'', operator = ''<'', wvalue = VInt 4\<rparr>],
          joins = [], limit = 0, offset = 0, orderBy = [], orderDir = [], groupBy = [],
          having = []\<rparr>\<rparr>" example_driver example_orm]
    by (simp add: Table_def spec_assign_def spec_where_def spec_pred_def sanitizeColumn_filter
        keep_rune_def fmt_d_1 fmt_d_2 fmt_d_3 fmt_d_4)
qed


section \<open>Create\<close>

text \<open>
  C9. For every non-empty fields map, \<^verbatim>\<open>Create\<close> inserts the caller's fields plus
  \<^verbatim>\<open>created_at\<close> and \<^verbatim>\<open>updated_at\<close>: a caller's value is forwarded as it is, and
  each of the two timestamps is set to the current time exactly when the caller
  gave no value for it. The columns of the INSERT are these keys (sanitized) in
  the order \<open>ks\<close> of the loop over the map, with the placeholders \<open>1, ..., length ks\<close>
  and the values in the same order; when the statement compiles, \<^verbatim>\<open>Create\<close>
  runs its handle with these values.
\<close>

theorem Create_timestamps:
  "data \<noteq> Map.empty \<Longrightarrow> range_order (create_newData now data) ks \<Longrightarrow>
     dom (create_newData now data) = dom data \<union> {''created_at'', ''updated_at''}
     \<and> (\<forall>k \<in> dom data. create_newData now data k = data k)
     \<and> (''created_at'' \<notin> dom data \<longrightarrow> create_newData now data ''created_at'' = Some now)
     \<and> (''updated_at'' \<notin> dom data \<longrightarrow> create_newData now data ''updated_at'' = Some now)
     \<and> set ks = dom data \<union> {''created_at'', ''updated_at''}
     \<and> createQuery now ks data m =
         (''INSERT INTO '' @ table (query m) @ '' ('' @ Join (map sanitizeColumn ks) '', ''
            @ '') VALUES ('' @ Join (map spec_placeholder [1..int (length ks)]) '', ''
            @ '') RETURNING *'',
          map (\<lambda>k. the (create_newData now data k)) ks)
     \<and> (\<forall>stmt db'. prepareQuery drv (fst (createQuery now ks data m)) db = (Inr stmt, db')
          \<longrightarrow> DB (snd (Create drv now ks data m db))
              = DB db' @ [Queried stmt (snd (createQuery now ks data m))])"
proof -
  assume ne: "data \<noteq> Map.empty" and ro: "range_order (create_newData now data) ks"
  have "set ks = dom data \<union> {''created_at'', ''updated_at''}"
    using ro by (simp add: range_order_def create_newData_dom)
  then show ?thesis
    using createQuery_eq [OF ro, of m] Create_executes [OF ne, of drv now ks m db]
    by (simp add: create_newData_dom create_newData_keeps create_newData_created
        create_newData_updated)
qed

theorem Create_timestamps_witness:
  "create_newData (VTime 99) [''username'' \<mapsto> VString ''alice'', ''created_at'' \<mapsto> VTime 5]
     = [''username'' \<mapsto> VString ''alice'', ''created_at'' \<mapsto> VTime 5, ''updated_at'' \<mapsto> VTime 99]
   \<and> createQuery (VTime 99) [''username'', ''updated_at'', ''created_at'']
        [''username'' \<mapsto> VString ''alice'', ''created_at'' \<mapsto> VTime 5] (Table ''users'')
     = (''INSERT INTO users (username, updated_at, created_at) VALUES ($1, $2, $3) RETURNING *'',
        [VString ''alice'', VTime 99, VTime 5])
   \<and> DB (snd (Create example_driver (VTime 99) [''username'', ''updated_at'', ''created_at'']
        [''username'' \<mapsto> VString ''alice'', ''created_at'' \<mapsto> VTime 5] (Table ''users'') example_orm))
     = [Prepared ''INSERT INTO users (username, updated_at, created_at) VALUES ($1, $2, $3) RETURNING *'',
        Queried 0 [VString ''alice'', VTime 99, VTime 5]]"
proof -
  let ?d = "[''username'' \<mapsto> VString ''alice'', ''created_at'' \<mapsto> VTime 5]"
  let ?ks = "[''username'', ''updated_at'', ''created_at'']"
  have nd: "create_newData (VTime 99) ?d
     = [''username'' \<mapsto> VString ''alice'', ''created_at'' \<mapsto> VTime 5, ''updated_at'' \<mapsto> VTime 99]"
    by (simp add: create_newData_def)
  have ne: "?d \<noteq> Map.empty" by simp
  have ro: "range_order (create_newData (VTime 99) ?d) ?ks"
    unfolding nd by (auto simp: range_order_def)
  have ups: "[1..3::int] = [1, 2, 3]" by (simp add: upto_rec1)
  note th = Create_timestamps [OF ne ro, of "Table ''users''" example_driver example_orm]
  have q: "createQuery (VTime 99) ?ks ?d (Table ''users'')
     = (''INSERT INTO users (username, updated_at, created_at) VALUES ($1, $2, $3) RETURNING *'',
        [VString ''alice'', VTime 99, VTime 5])"
    using th by (simp add: nd Table_def sanitizeColumn_filter keep_rune_def spec_placeholder_def
        ups fmt_d_1 fmt_d_2 fmt_d_3)
  have p: "prepareQuery example_driver
      ''INSERT INTO users (username, updated_at, created_at) VALUES ($1, $2, $3) RETURNING *''
      example_orm
     = (Inr 0, example_orm\<lparr>DB := [Prepared ''INSERT INTO users (username, updated_at, created_at) VALUES ($1, $2, $3) RETURNING *''],
          prepared := [''INSERT INTO users (username, updated_at, created_at) VALUES ($1, $2, $3) RETURNING *'' \<mapsto> 0]\<rparr>)"
    by (simp add: prepareQuery_def example_driver_def example_orm_def)
  have "DB (snd (Create example_driver (VTime 99) ?ks ?d (Table ''users'') example_orm))
     = [Prepared ''INSERT INTO users (username, updated_at, created_at) VALUES ($1, $2, $3) RETURNING *'',
        Queried 0 [VString ''alice'', VTime 99, VTime 5]]"
    using th p unfolding q by simp
  with nd q show ?thesis by simp
qed

text \<open>
  C7. \<^verbatim>\<open>Create\<close> and \<^verbatim>\<open>Update\<close> with an empty fields map fail with
  \<open>ErrInvalidValue\<close> at once. The \<^verbatim>\<open>Orm\<close> they return is the one they were given:
  no statement was compiled (no \<open>Prepared\<close> event, no cache entry), none was run
  (no \<open>Queried\<close> or \<open>Executed\<close> event), and \<^verbatim>\<open>logQuery\<close> printed no rendered
  statement.
\<close>

theorem Create_Update_empty_fields:
  "Create drv now ks Map.empty m db = (Inl ErrInvalidValue, db)
   \<and> Update drv ks' Map.empty m db = (Inl ErrInvalidValue, db)"
  by (simp add: Create_def Update_def)

theorem Create_Update_empty_fields_witness:
  "Create example_driver (VTime 0) [] Map.empty (Table ''users'') example_orm
     = (Inl ErrInvalidValue, example_orm)
   \<and> Update example_driver [] Map.empty (Table ''users'') example_orm
     = (Inl ErrInvalidValue, example_orm)"
  using Create_Update_empty_fields [of example_driver "VTime 0" "[]" "Table ''users''" example_orm "[]"]
  by simp


section \<open>First\<close>

text \<open>
  C6. \<^verbatim>\<open>First\<close> sets the limit of the builder to 1 (so the statement ends in
  \<^verbatim>\<open>LIMIT 1\<close>, before the offset if there is one), runs \<^verbatim>\<open>Get\<close> on it and takes
  the head of the result: when \<^verbatim>\<open>Get\<close> succeeds with the empty sequence \<^verbatim>\<open>First\<close>
  fails with \<open>ErrNoRows\<close>, when \<^verbatim>\<open>Get\<close> succeeds with a first row \<^verbatim>\<open>First\<close>
  returns exactly that row, and an error of \<^verbatim>\<open>Get\<close> is passed on. In particular,
  when the database answers the statement with no rows, \<^verbatim>\<open>Get\<close> succeeds with the
  empty sequence and \<^verbatim>\<open>First\<close> fails with \<open>ErrNoRows\<close>.
\<close>

theorem First_limit_one_head_of_Get:
  "fst (snd (First drv m db)) = m\<lparr>query := (query m)\<lparr>limit := 1\<rparr>\<rparr>
   \<and> snd (snd (First drv m db)) = snd (Get drv (m\<lparr>query := (query m)\<lparr>limit := 1\<rparr>\<rparr>) db)
   \<and> fst (buildSelectQuery (m\<lparr>query := (query m)\<lparr>limit := 1\<rparr>\<rparr>))
       = fst (buildSelectQuery (m\<lparr>query := (query m)\<lparr>limit := 0, offset := 0\<rparr>\<rparr>))
           @ '' LIMIT 1''
           @ (if offset (query m) > 0 then '' OFFSET '' @ fmt_d (offset (query m)) else [])
   \<and> (fst (Get drv (m\<lparr>query := (query m)\<lparr>limit := 1\<rparr>\<rparr>) db) = Inr []
        \<longrightarrow> fst (First drv m db) = Inl ErrNoRows)
   \<and> (\<forall>r rs. fst (Get drv (m\<lparr>query := (query m)\<lparr>limit := 1\<rparr>\<rparr>) db) = Inr (r # rs)
        \<longrightarrow> fst (First drv m db) = Inr r)
   \<and> (\<forall>e. fst (Get drv (m\<lparr>query := (query m)\<lparr>limit := 1\<rparr>\<rparr>) db) = Inl e
        \<longrightarrow> fst (First drv m db) = Inl e)
   \<and> (\<forall>stmt db' rows cols.
        prepareQuery drv (fst (buildSelectQuery (m\<lparr>query := (query m)\<lparr>limit := 1\<rparr>\<rparr>))) db
          = (Inr stmt, db')
        \<and> QueryContext drv (DB db') stmt
            (snd (buildSelectQuery (m\<lparr>query := (query m)\<lparr>limit := 1\<rparr>\<rparr>))) = Inr rows
        \<and> Columns rows = Inr cols \<and> Scans rows = []
        \<longrightarrow> fst (Get drv (m\<lparr>query := (query m)\<lparr>limit := 1\<rparr>\<rparr>) db) = Inr []
            \<and> fst (First drv m db) = Inl ErrNoRows)"
proof -
  let ?m1 = "m\<lparr>query := (query m)\<lparr>limit := 1\<rparr>\<rparr>"
  obtain res db1 where g: "Get drv ?m1 db = (res, db1)"
    by (cases "Get drv ?m1 db")
  have a: "fst (snd (First drv m db)) = ?m1" "snd (snd (First drv m db)) = db1"
    using g by (simp_all add: First_def Let_def split: sum.splits)
  have b: "res = Inr [] \<longrightarrow> fst (First drv m db) = Inl ErrNoRows"
    using g by (simp add: First_def Let_def)
  have c: "\<forall>r rs. res = Inr (r # rs) \<longrightarrow> fst (First drv m db) = Inr r"
    using g by (simp add: First_def Let_def)
  have d: "\<forall>e. res = Inl e \<longrightarrow> fst (First drv m db) = Inl e"
    using g by (simp add: First_def Let_def)
  have e: "\<forall>stmt db' rows cols.
        prepareQuery drv (fst (buildSelectQuery ?m1)) db = (Inr stmt, db')
        \<and> QueryContext drv (DB db') stmt (snd (buildSelectQuery ?m1)) = Inr rows
        \<and> Columns rows = Inr cols \<and> Scans rows = []
        \<longrightarrow> res = Inr []"
    using g Get_zero_rows [of drv ?m1 db] by fastforce
  show ?thesis
    using a b c d e buildSelectQuery_limit_1 [of m] unfolding g by simp
qed

theorem First_limit_one_head_of_Get_witness:
  "fst (Get example_driver
          ((example_builder (VInt 42))\<lparr>query := (query (example_builder (VInt 42)))\<lparr>limit := 1\<rparr>\<rparr>)
          example_orm) = Inr []
   \<and> fst (First example_driver (example_builder (VInt 42)) example_orm) = Inl ErrNoRows
   \<and> fst (First example_driver (example_builder (VInt 7)) example_orm)
       = Inr [''id'' \<mapsto> VInt 1, ''username'' \<mapsto> VString ''alice'']
   \<and> fst (buildSelectQuery
          ((example_builder (VInt 42))\<lparr>query := (query (example_builder (VInt 42)))\<lparr>limit := 1\<rparr>\<rparr>))
       = ''SELECT id, username FROM users WHERE id = $1 LIMIT 1''"
proof -
  have q: "buildSelectQuery ((example_builder v)\<lparr>query := (query (example_builder v))\<lparr>limit := 1\<rparr>\<rparr>)
      = (''SELECT id, username FROM users WHERE id = $1 LIMIT 1'', [v])" for v
    by (simp add: buildSelectQuery_def buildWhereClause_def example_builder_def sprintf_pred_def
        fmt_d_1)
  have g42: "fst (Get example_driver
          ((example_builder (VInt 42))\<lparr>query := (query (example_builder (VInt 42)))\<lparr>limit := 1\<rparr>\<rparr>)
          example_orm) = Inr []"
    by (simp add: Get_def q prepareQuery_def example_driver_def example_orm_def scanRows_def)
  have g7: "fst (Get example_driver
          ((example_builder (VInt 7))\<lparr>query := (query (example_builder (VInt 7)))\<lparr>limit := 1\<rparr>\<rparr>)
          example_orm)
       = Inr [[''id'' \<mapsto> VInt 1, ''username'' \<mapsto> VString ''alice''],
              [''id'' \<mapsto> VInt 2, ''username'' \<mapsto> VString ''bob'']]"
    by (simp add: Get_def q prepareQuery_def example_driver_def example_orm_def scanRows_def
        example_rows_def row_map_def)
  show ?thesis
    using First_limit_one_head_of_Get [of example_driver "example_builder (VInt 42)" example_orm]
      First_limit_one_head_of_Get [of example_driver "example_builder (VInt 7)" example_orm]
      g42 g7 q
    by simp
qed


section \<open>Rendering and the order of a map\<close>

text \<open>
  C3 (as stated, false). The claim: for a fixed builder and a fixed fields map, two
  renderings of the same terminal operation give the same SQL text and the same
  argument order. \<^verbatim>\<open>Update\<close> and \<^verbatim>\<open>Create\<close> range over a Go map, and neither
  sorts the keys: for the map \<^verbatim>\<open>{"a": 1, "b": 2}\<close> both orders of the two keys are
  orders of the loop, and they render different statements with different
  argument orders.
\<close>

theorem render_order_counterexample:
  "range_order [''a'' \<mapsto> VInt 1, ''b'' \<mapsto> VInt 2] [''a'', ''b'']
   \<and> range_order [''a'' \<mapsto> VInt 1, ''b'' \<mapsto> VInt 2] [''b'', ''a'']
   \<and> updateQuery [''a'', ''b''] [''a'' \<mapsto> VInt 1, ''b'' \<mapsto> VInt 2] (Table ''t'')
       = (''UPDATE t SET a = $1, b = $2'', [VInt 1, VInt 2])
   \<and> updateQuery [''b'', ''a''] [''a'' \<mapsto> VInt 1, ''b'' \<mapsto> VInt 2] (Table ''t'')
       = (''UPDATE t SET b = $1, a = $2'', [VInt 2, VInt 1])
   \<and> updateQuery [''a'', ''b''] [''a'' \<mapsto> VInt 1, ''b'' \<mapsto> VInt 2] (Table ''t'')
       \<noteq> updateQuery [''b'', ''a''] [''a'' \<mapsto> VInt 1, ''b'' \<mapsto> VInt 2] (Table ''t'')"
proof -
  have r: "range_order [''a'' \<mapsto> VInt 1, ''b'' \<mapsto> VInt 2] [''a'', ''b'']"
      "range_order [''a'' \<mapsto> VInt 1, ''b'' \<mapsto> VInt 2] [''b'', ''a'']"
    by (auto simp: range_order_def)
  have u: "updateQuery [''a'', ''b''] [''a'' \<mapsto> VInt 1, ''b'' \<mapsto> VInt 2] (Table ''t'')
       = (''UPDATE t SET a = $1, b = $2'', [VInt 1, VInt 2])"
     "updateQuery [''b'', ''a''] [''a'' \<mapsto> VInt 1, ''b'' \<mapsto> VInt 2] (Table ''t'')
       = (''UPDATE t SET b = $1, a = $2'', [VInt 2, VInt 1])"
    by (simp_all add: updateQuery_def range_pairs_def List.map_filter_def buildWhereClause_def
        Table_def sanitizeColumn_filter keep_rune_def fmt_d_1 fmt_d_2)
  show ?thesis unfolding u using r by simp
qed

text \<open>
  C3, amended. The rendering of \<^verbatim>\<open>Get\<close> and \<^verbatim>\<open>Delete\<close> is a function of the
  builder alone (\<open>buildSelectQuery\<close> and \<open>deleteQuery\<close> range over no map). The
  rendering of \<^verbatim>\<open>Update\<close> and \<^verbatim>\<open>Create\<close> is a function of the builder, the
  fields map, the order in which the map is ranged over and, for the timestamps
  of \<^verbatim>\<open>Create\<close>, the current time. Two such orders of
  the same map are permutations of each other; the statements they give differ
  only in that order: the same table, the assignments (columns) in the order of
  the loop, the same placeholders \<open>1, 2, ...\<close> by position, the same where clause
  with the same numbering, each value at the position of its column, and so the
  same arguments up to order.
\<close>

theorem render_up_to_range_order:
  "range_order data ks1 \<Longrightarrow> range_order data ks2 \<Longrightarrow>
   range_order (create_newData now data) js1 \<Longrightarrow> range_order (create_newData now data) js2 \<Longrightarrow>
     mset ks1 = mset ks2 \<and> mset js1 = mset js2
     \<and> updateQuery ks1 data m =
         (''UPDATE '' @ table (query m) @ '' SET '' @ Join (map spec_assign (numbered 1 ks1)) '', ''
            @ spec_where (wheres (query m)) (orWheres (query m)) (1 + int (card (dom data))),
          map (\<lambda>k. the (data k)) ks1 @ map wvalue (wheres (query m) @ orWheres (query m)))
     \<and> updateQuery ks2 data m =
         (''UPDATE '' @ table (query m) @ '' SET '' @ Join (map spec_assign (numbered 1 ks2)) '', ''
            @ spec_where (wheres (query m)) (orWheres (query m)) (1 + int (card (dom data))),
          map (\<lambda>k. the (data k)) ks2 @ map wvalue (wheres (query m) @ orWheres (query m)))
     \<and> createQuery now js1 data m =
         (''INSERT INTO '' @ table (query m) @ '' ('' @ Join (map sanitizeColumn js1) '', ''
            @ '') VALUES (''
            @ Join (map spec_placeholder [1..int (card (dom (create_newData now data)))]) '', ''
            @ '') RETURNING *'',
          map (\<lambda>k. the (create_newData now data k)) js1)
     \<and> createQuery now js2 data m =
         (''INSERT INTO '' @ table (query m) @ '' ('' @ Join (map sanitizeColumn js2) '', ''
            @ '') VALUES (''
            @ Join (map spec_placeholder [1..int (card (dom (create_newData now data)))]) '', ''
            @ '') RETURNING *'',
          map (\<lambda>k. the (create_newData now data k)) js2)
     \<and> mset (snd (updateQuery ks1 data m)) = mset (snd (updateQuery ks2 data m))
     \<and> mset (snd (createQuery now js1 data m)) = mset (snd (createQuery now js2 data m))"
proof -
  assume k1: "range_order data ks1" and k2: "range_order data ks2"
    and j1: "range_order (create_newData now data) js1"
    and j2: "range_order (create_newData now data) js2"
  have mk: "mset ks1 = mset ks2" using k1 k2 by (rule range_order_mset)
  have mj: "mset js1 = mset js2" using j1 j2 by (rule range_order_mset)
  have u1: "updateQuery ks1 data m =
         (''UPDATE '' @ table (query m) @ '' SET '' @ Join (map spec_assign (numbered 1 ks1)) '', ''
            @ spec_where (wheres (query m)) (orWheres (query m)) (1 + int (card (dom data))),
          map (\<lambda>k. the (data k)) ks1 @ map wvalue (wheres (query m) @ orWheres (query m)))"
    using updateQuery_eq [OF k1, of m] range_order_length [OF k1] by simp
  have u2: "updateQuery ks2 data m =
         (''UPDATE '' @ table (query m) @ '' SET '' @ Join (map spec_assign (numbered 1 ks2)) '', ''
            @ spec_where (wheres (query m)) (orWheres (query m)) (1 + int (card (dom data))),
          map (\<lambda>k. the (data k)) ks2 @ map wvalue (wheres (query m) @ orWheres (query m)))"
    using updateQuery_eq [OF k2, of m] range_order_length [OF k2] by simp
  have c1: "createQuery now js1 data m =
         (''INSERT INTO '' @ table (query m) @ '' ('' @ Join (map sanitizeColumn js1) '', ''
            @ '') VALUES (''
            @ Join (map spec_placeholder [1..int (card (dom (create_newData now data)))]) '', ''
            @ '') RETURNING *'',
          map (\<lambda>k. the (create_newData now data k)) js1)"
    using createQuery_eq [OF j1, of m] range_order_length [OF j1] by simp
  have c2: "createQuery now js2 data m =
         (''INSERT INTO '' @ table (query m) @ '' ('' @ Join (map sanitizeColumn js2) '', ''
            @ '') VALUES (''
            @ Join (map spec_placeholder [1..int (card (dom (create_newData now data)))]) '', ''
            @ '') RETURNING *'',
          map (\<lambda>k. the (create_newData now data k)) js2)"
    using createQuery_eq [OF j2, of m] range_order_length [OF j2] by simp
  have mu: "mset (map (\<lambda>k. the (data k)) ks1) = mset (map (\<lambda>k. the (data k)) ks2)"
    using mk by (metis mset_map)
  have mc: "mset (map (\<lambda>k. the (create_newData now data k)) js1)
      = mset (map (\<lambda>k. the (create_newData now data k)) js2)"
    using mj by (metis mset_map)
  show ?thesis
    unfolding u1 u2 c1 c2 using mk mj mu mc by simp
qed

theorem render_up_to_range_order_witness:
  "mset [''a'', ''b''] = mset [''b'', ''a'']
   \<and> updateQuery [''a'', ''b''] [''a'' \<mapsto> VInt 1, ''b'' \<mapsto> VInt 2]
        ((example_builder (VInt 9))\<lparr>query := (query (example_builder (VInt 9)))\<lparr>table := ''t''\<rparr>\<rparr>)
       = (''UPDATE t SET a = $1, b = $2 WHERE id = $3'', [VInt 1, VInt 2, VInt 9])
   \<and> updateQuery [''b'', ''a''] [''a'' \<mapsto> VInt 1, ''b'' \<mapsto> VInt 2]
        ((example_builder (VInt 9))\<lparr>query := (query (example_builder (VInt 9)))\<lparr>table := ''t''\<rparr>\<rparr>)
       = (''UPDATE t SET b = $1, a = $2 WHERE id = $3'', [VInt 2, VInt 1, VInt 9])
   \<and> createQuery (VTime 0) [''a'', ''b'', ''created_at'', ''updated_at'']
        [''a'' \<mapsto> VInt 1, ''b'' \<mapsto> VInt 2]
        ((example_builder (VInt 9))\<lparr>query := (query (example_builder (VInt 9)))\<lparr>table := ''t''\<rparr>\<rparr>)
       = (''INSERT INTO t (a, b, created_at, updated_at) VALUES ($1, $2, $3, $4) RETURNING *'',
          [VInt 1, VInt 2, VTime 0, VTime 0])
   \<and> createQuery (VTime 0) [''updated_at'', ''b'', ''created_at'', ''a'']
        [''a'' \<mapsto> VInt 1, ''b'' \<mapsto> VInt 2]
        ((example_builder (VInt 9))\<lparr>query := (query (example_builder (VInt 9)))\<lparr>table := ''t''\<rparr>\<rparr>)
       = (''INSERT INTO t (updated_at, b, created_at, a) VALUES ($1, $2, $3, $4) RETURNING *'',
          [VTime 0, VInt 2, VTime 0, VInt 1])"
proof -
  let ?d = "[''a'' \<mapsto> VInt 1, ''b'' \<mapsto> VInt 2]"
  have nd: "create_newData (VTime 0) ?d
     = [''a'' \<mapsto> VInt 1, ''b'' \<mapsto> VInt 2, ''created_at'' \<mapsto> VTime 0, ''updated_at'' \<mapsto> VTime 0]"
    by (simp add: create_newData_def)
  have k1: "range_order ?d [''a'', ''b'']" and k2: "range_order ?d [''b'', ''a'']"
    by (auto simp: range_order_def)
  have j1: "range_order (create_newData (VTime 0) ?d) [''a'', ''b'', ''created_at'', ''updated_at'']"
    and j2: "range_order (create_newData (VTime 0) ?d) [''updated_at'', ''b'', ''created_at'', ''a'']"
    unfolding nd by (auto simp: range_order_def)
  have c2: "card (dom ?d) = 2" by simp
  have c4: "card (dom (create_newData (VTime 0) ?d)) = 4"
    unfolding nd by simp
  have ups: "[1..4::int] = [1, 2, 3, 4]" by (simp add: upto_rec1)
  show ?thesis
    using render_up_to_range_order [OF k1 k2 j1 j2,
        of "(example_builder (VInt 9))\<lparr>query := (query (example_builder (VInt 9)))\<lparr>table := ''t''\<rparr>\<rparr>"]
    by (simp add: c2 c4 ups nd example_builder_def spec_assign_def spec_where_def spec_pred_def
        spec_placeholder_def sanitizeColumn_filter keep_rune_def fmt_d_1 fmt_d_2 fmt_d_3 fmt_d_4)
qed

end
